theory Spec2Isabelle
  imports Main
begin

section \<open>JavaScript values shared by the services\<close>

text \<open>
  The extension is asynchronous JavaScript. Every function below is the source function
  with its mutable state made explicit: the fields of the singleton objects, the two
  collections kept in \<^verbatim>\<open>chrome.storage.local\<close> and the chronological list of effects
  that leave the coordinator (commands to the offscreen document, upload requests,
  storage writes, notifications, badge changes, broadcasts) form one \<open>world\<close> record.
  What the outside answers (the offscreen document, the remote API, the clock, the
  active tab) is read from an \<open>env\<close> record or passed as a parameter.
  \<^verbatim>\<open>chrome.storage.local.get\<close> and \<^verbatim>\<open>set\<close>, \<^verbatim>\<open>chrome.tabs.query\<close> and the dynamic
  \<^verbatim>\<open>import\<close>s are taken to resolve; a \<^verbatim>\<open>Date\<close> is its number of milliseconds since the
  epoch. Console output is left out.
\<close>

text \<open>A response object \<^verbatim>\<open>{success: true, ...}\<close> or \<^verbatim>\<open>{success: false, error}\<close>.\<close>

datatype 'a response = Success 'a | Failure string

text \<open>\<^verbatim>\<open>a || d\<close> on an optional boolean and on an optional string (the empty string is falsy).\<close>

definition orFalse :: "bool option \<Rightarrow> bool" where
  "orFalse b = (case b of None \<Rightarrow> False | Some v \<Rightarrow> v)"

definition orString :: "string option \<Rightarrow> string \<Rightarrow> string" where
  "orString s d = (case s of None \<Rightarrow> d | Some v \<Rightarrow> if v = [] then d else v)"

text \<open>The \<^verbatim>\<open>options\<close> object of a start request; a missing key is \<open>None\<close>.\<close>

record options =
  includeScreen :: "bool option"
  includeAudio :: "bool option"
  includeSystemAudio :: "bool option"
  videoQuality :: "string option"
  audioQuality :: "string option"

text \<open>Messages sent to the offscreen document (the Capture Surface).\<close>

datatype capture_cmd =
    START_CAPTURE options
  | STOP_CAPTURE
  | PAUSE_CAPTURE
  | RESUME_CAPTURE

text \<open>
  What \<^verbatim>\<open>await chrome.runtime.sendMessage(...)\<close> gives back: the promise rejects, it
  resolves to \<^verbatim>\<open>undefined\<close>, or it resolves to \<^verbatim>\<open>{success, error}\<close>.
\<close>

datatype reply = Rejects string | NoResponse | Response bool "string option"

section \<open>Recording records\<close>

text \<open>
  The recorded media as a JavaScript value: a \<^verbatim>\<open>Blob\<close> object with its content, or a
  string holding a data URL of that content. \<^verbatim>\<open>FormData.append(name, value, filename)\<close>
  accepts only the first; \<^verbatim>\<open>fetch\<close> reads the second.
\<close>

datatype payload = BlobObject string | DataUrl string

text \<open>
  A persisted recording. \<open>rid\<close> is the \<^verbatim>\<open>id\<close> key, \<open>recStartTime\<close> the \<^verbatim>\<open>startTime\<close> key
  (an ISO string in the source, kept as the milliseconds it prints); \<open>blob\<close> is the
  retained payload as it was stored (the \<^verbatim>\<open>blob\<close> key of the services, the \<^verbatim>\<open>data\<close> key
  of background.js), \<open>None\<close> when the key is absent or null. A missing \<^verbatim>\<open>needsSync\<close> or
  \<^verbatim>\<open>isLocal\<close> is falsy, hence \<open>False\<close>.
\<close>

record recording =
  rid :: string
  title :: string
  url :: string
  duration :: int
  recStartTime :: int
  endTime :: int
  fileSize :: nat
  mimeType :: string
  isLocal :: bool
  needsSync :: bool
  blob :: "payload option"

text \<open>The answer of \<^verbatim>\<open>ApiService.uploadRecording\<close>, which catches its own exceptions.\<close>

datatype upload_result = UploadOk recording | UploadFailed string

text \<open>
  The keys of a JSON body as far as they touch a recording; any other key is \<open>KOther\<close>.
  background.js hands the whole body of the upload response on as \<^verbatim>\<open>uploadResult.data\<close>.
\<close>

datatype bodyKey =
    KId string
  | KTitle string
  | KUrl string
  | KDuration int
  | KStartTime int
  | KEndTime int
  | KFileSize nat
  | KMimeType string
  | KIsLocal bool
  | KNeedsSync bool
  | KData "payload option"
  | KOther string

text \<open>The answer of \<^verbatim>\<open>uploadRecording\<close> of background.js, which catches its own exceptions.\<close>

datatype bgUpload_result = BgUploadOk "bodyKey list" | BgUploadFailed string

text \<open>A tab as \<^verbatim>\<open>chrome.tabs.query\<close> returns it; \<^verbatim>\<open>title\<close> and \<^verbatim>\<open>url\<close> may be undefined.\<close>

record tab =
  tabTitle :: "string option"
  tabUrl :: "string option"

text \<open>Everything that leaves the coordinator, in the order it happens.\<close>

datatype effect =
    ToOffscreen capture_cmd
  | UploadRequest string recording
  | StorageSet string
  | Notification string
  | SetBadgeText string
  | SetBadgeBackgroundColor string
  | NotifyAllTabs string
  | ShowMessage string string

text \<open>
  The surroundings of one call: whether the offscreen document can be established
  (\<^verbatim>\<open>ensureOffscreenDocument\<close> resolves), what the offscreen document answers to a
  command, the content of the \<^verbatim>\<open>Blob\<close> that \<^verbatim>\<open>fetch(x).then(r => r.blob())\<close> yields for a
  stored payload \<open>x\<close> (\<open>None\<close>: it rejects), what the remote API answers to the upload
  request for a \<^verbatim>\<open>Blob\<close> of given content with its metadata (for the services and for
  background.js, which also looks for the auth token), and the active tab
  (\<open>None\<close>: \<^verbatim>\<open>tabs[0]\<close> is undefined).
\<close>

record env =
  offscreenOk :: bool
  captureReply :: "capture_cmd \<Rightarrow> reply"
  fetchBlob :: "payload option \<Rightarrow> string option"
  uploadRecording :: "string \<Rightarrow> recording \<Rightarrow> upload_result"
  bgUploadRecording :: "string \<Rightarrow> recording \<Rightarrow> bgUpload_result"
  activeTab :: "tab option"

text \<open>
  The fields of the RecordingManager that are read somewhere (\<^verbatim>\<open>recordingData\<close>,
  \<^verbatim>\<open>mediaRecorder\<close>, \<^verbatim>\<open>stream\<close> and \<^verbatim>\<open>offscreenDocument\<close> are only ever reset), the stored
  keys \<^verbatim>\<open>recordings\<close> and \<^verbatim>\<open>localRecordings\<close>, and the effects so far.
\<close>

record world =
  isRecording :: bool
  isPaused :: bool
  startTime :: "int option"
  pausedTime :: int
  recordings :: "recording list"
  localRecordings :: "recording list"
  trace :: "effect list"

definition emit :: "effect \<Rightarrow> world \<Rightarrow> world" where
  "emit x w = w\<lparr>trace := trace w @ [x]\<rparr>"

section \<open>StorageManager (services/storage-manager.js)\<close>

text \<open>\<^verbatim>\<open>addRecording\<close>: unshift, keep the first 100, write the key \<^verbatim>\<open>recordings\<close>.\<close>

definition addRecording :: "recording \<Rightarrow> world \<Rightarrow> world" where
  "addRecording r w =
     emit (StorageSet ''recordings'') (w\<lparr>recordings := take 100 (r # recordings w)\<rparr>)"

text \<open>\<^verbatim>\<open>addLocalRecording\<close>: unshift, keep the first 50, write the key \<^verbatim>\<open>localRecordings\<close>.\<close>

definition addLocalRecording :: "recording \<Rightarrow> world \<Rightarrow> world" where
  "addLocalRecording r w =
     emit (StorageSet ''localRecordings'')
       (w\<lparr>localRecordings := take 50 (r # localRecordings w)\<rparr>)"

text \<open>\<^verbatim>\<open>Array.prototype.findIndex\<close>; the source's \<open>-1\<close> is \<open>None\<close>.\<close>

fun findIndex :: "('a \<Rightarrow> bool) \<Rightarrow> 'a list \<Rightarrow> nat option" where
  "findIndex p [] = None"
| "findIndex p (x # xs) = (if p x then Some 0 else map_option Suc (findIndex p xs))"

text \<open>The record written over a synced entry of \<^verbatim>\<open>updatedLocalRecordings\<close>.\<close>

definition markSynced :: "recording \<Rightarrow> recording" where
  "markSynced s = s\<lparr>needsSync := False, isLocal := False, blob := None\<rparr>"

text \<open>
  The body of \<^verbatim>\<open>for (const recording of pendingRecordings)\<close>. The loop state is
  \<^verbatim>\<open>syncedCount\<close>, \<^verbatim>\<open>updatedLocalRecordings\<close> and the world. A rejected \<^verbatim>\<open>fetch\<close> of the
  payload and an upload that reports failure both leave the loop state as it is (the
  inner \<^verbatim>\<open>catch\<close> only logs).
\<close>

fun syncLoop ::
  "env \<Rightarrow> recording list \<Rightarrow> nat \<times> recording list \<times> world \<Rightarrow> nat \<times> recording list \<times> world"
where
  "syncLoop e [] st = st"
| "syncLoop e (r # rs) (n, upd, w) =
     (case fetchBlob e (blob r) of
        None \<Rightarrow> syncLoop e rs (n, upd, w)
      | Some b \<Rightarrow>
          (let w1 = emit (UploadRequest b (r\<lparr>blob := None\<rparr>)) w in
           case uploadRecording e b (r\<lparr>blob := None\<rparr>) of
             UploadFailed err \<Rightarrow> syncLoop e rs (n, upd, w1)
           | UploadOk s \<Rightarrow>
               (let upd' = (case findIndex (\<lambda>x. rid x = rid r) upd of
                              None \<Rightarrow> upd
                            | Some i \<Rightarrow> upd[i := markSynced s])
                in syncLoop e rs (Suc n, upd', addRecording s w1))))"

definition syncPendingRecordings :: "env \<Rightarrow> world \<Rightarrow> nat response \<times> world" where
  "syncPendingRecordings e w =
     (let pendingRecordings = filter needsSync (localRecordings w) in
      if length pendingRecordings = 0 then (Success 0, w)
      else
        (case syncLoop e pendingRecordings (0, localRecordings w, w) of
           (syncedCount, updatedLocalRecordings, w') \<Rightarrow>
             (Success syncedCount,
              emit (StorageSet ''localRecordings'')
                (w'\<lparr>localRecordings := updatedLocalRecordings\<rparr>))))"

section \<open>RecordingManager (services/recording-manager.js)\<close>

definition cleanup :: "world \<Rightarrow> world" where
  "cleanup w = w\<lparr>isRecording := False, isPaused := False, startTime := None, pausedTime := 0\<rparr>"

text \<open>\<^verbatim>\<open>getDuration\<close>; \<open>now\<close> is what \<^verbatim>\<open>new Date()\<close> reads. \<open>div\<close> on \<open>int\<close> rounds down, as \<^verbatim>\<open>Math.floor\<close>.\<close>

definition getDuration :: "int \<Rightarrow> world \<Rightarrow> int" where
  "getDuration now w =
     (case startTime w of
        None \<Rightarrow> 0
      | Some st \<Rightarrow>
          (let now' = (if isRecording w then now else st)
           in (now' - st) div 1000 - pausedTime w))"



text \<open>The \<^verbatim>\<open>options\<close> object of the \<^verbatim>\<open>START_CAPTURE\<close> message.\<close>

definition captureOptions :: "options \<Rightarrow> options" where
  "captureOptions opts =
     \<lparr>includeScreen = Some (orFalse (includeScreen opts)),
      includeAudio = Some (orFalse (includeAudio opts)),
      includeSystemAudio = Some (orFalse (includeSystemAudio opts)),
      videoQuality = Some (orString (videoQuality opts) ''medium''),
      audioQuality = Some (orString (audioQuality opts) ''medium'')\<rparr>"

text \<open>
  \<^verbatim>\<open>startRecording\<close> runs in three pieces, separated by its two \<^verbatim>\<open>await\<close>s: the guard;
  after \<^verbatim>\<open>ensureOffscreenDocument\<close> has resolved, the reset of the session fields and the
  sending of \<^verbatim>\<open>START_CAPTURE\<close> (\<open>startIssue\<close>); after the answer has arrived, the update of
  \<^verbatim>\<open>isRecording\<close> (\<open>startSettle\<close>). Every \<^verbatim>\<open>throw\<close> lands in the one \<^verbatim>\<open>catch\<close>, which calls
  \<^verbatim>\<open>cleanup\<close> (\<open>startFailed\<close>).
\<close>

definition startFailed :: "string \<Rightarrow> world \<Rightarrow> int response \<times> world" where
  "startFailed msg w = (Failure msg, cleanup w)"

definition startIssue :: "int \<Rightarrow> options \<Rightarrow> world \<Rightarrow> world" where
  "startIssue now opts w =
     emit (ToOffscreen (START_CAPTURE (captureOptions opts)))
       (w\<lparr>pausedTime := 0, startTime := Some now\<rparr>)"

definition startSettle :: "reply \<Rightarrow> world \<Rightarrow> int response \<times> world" where
  "startSettle rp w =
     (case rp of
        Rejects msg \<Rightarrow> startFailed msg w
      | NoResponse \<Rightarrow> startFailed ''Failed to start recording'' w
      | Response ok err \<Rightarrow>
          (if ok then
             (let w1 = w\<lparr>isRecording := True, isPaused := False\<rparr> in
              case startTime w1 of
                None \<Rightarrow> startFailed ''Cannot read properties of null'' w1
              | Some st \<Rightarrow> (Success st, w1))
           else startFailed (orString err ''Failed to start recording'') w))"

definition startRecording :: "env \<Rightarrow> int \<Rightarrow> options \<Rightarrow> world \<Rightarrow> int response \<times> world" where
  "startRecording e now opts w =
     (if isRecording w then startFailed ''Recording already in progress'' w
      else if \<not> offscreenOk e then startFailed ''Failed to initialize recording system'' w
      else startSettle (captureReply e (START_CAPTURE (captureOptions opts)))
             (startIssue now opts w))"

text \<open>
  \<^verbatim>\<open>stopRecording\<close>, \<^verbatim>\<open>pauseRecording\<close> and \<^verbatim>\<open>resumeRecording\<close> have one \<^verbatim>\<open>await\<close> each: the
  guard and the sending of the command come before it (\<open>...Issue\<close>), the update of the
  status fields after it (\<open>...Settle\<close>). The answer is not inspected; only a rejected
  promise counts as failure.
\<close>

definition stopIssue :: "world \<Rightarrow> world" where
  "stopIssue w = emit (ToOffscreen STOP_CAPTURE) w"

definition stopSettle :: "reply \<Rightarrow> world \<Rightarrow> unit response \<times> world" where
  "stopSettle rp w =
     (case rp of
        Rejects msg \<Rightarrow> (Failure msg, cleanup w)
      | NoResponse \<Rightarrow> (Success (), w\<lparr>isRecording := False, isPaused := False\<rparr>)
      | Response ok err \<Rightarrow> (Success (), w\<lparr>isRecording := False, isPaused := False\<rparr>))"

definition stopRecording :: "env \<Rightarrow> world \<Rightarrow> unit response \<times> world" where
  "stopRecording e w =
     (if \<not> isRecording w then (Failure ''No recording in progress'', cleanup w)
      else stopSettle (captureReply e STOP_CAPTURE) (stopIssue w))"

definition pauseIssue :: "world \<Rightarrow> world" where
  "pauseIssue w = emit (ToOffscreen PAUSE_CAPTURE) w"

definition pauseSettle :: "reply \<Rightarrow> world \<Rightarrow> unit response \<times> world" where
  "pauseSettle rp w =
     (case rp of
        Rejects msg \<Rightarrow> (Failure msg, w)
      | NoResponse \<Rightarrow> (Success (), w\<lparr>isPaused := True\<rparr>)
      | Response ok err \<Rightarrow> (Success (), w\<lparr>isPaused := True\<rparr>))"

definition pauseRecording :: "env \<Rightarrow> world \<Rightarrow> unit response \<times> world" where
  "pauseRecording e w =
     (if \<not> isRecording w \<or> isPaused w then (Failure ''No active recording to pause'', w)
      else pauseSettle (captureReply e PAUSE_CAPTURE) (pauseIssue w))"

definition resumeIssue :: "world \<Rightarrow> world" where
  "resumeIssue w = emit (ToOffscreen RESUME_CAPTURE) w"

definition resumeSettle :: "reply \<Rightarrow> world \<Rightarrow> unit response \<times> world" where
  "resumeSettle rp w =
     (case rp of
        Rejects msg \<Rightarrow> (Failure msg, w)
      | NoResponse \<Rightarrow> (Success (), w\<lparr>isPaused := False\<rparr>)
      | Response ok err \<Rightarrow> (Success (), w\<lparr>isPaused := False\<rparr>))"

definition resumeRecording :: "env \<Rightarrow> world \<Rightarrow> unit response \<times> world" where
  "resumeRecording e w =
     (if \<not> isRecording w \<or> \<not> isPaused w then (Failure ''No paused recording to resume'', w)
      else resumeSettle (captureReply e RESUME_CAPTURE) (resumeIssue w))"

text \<open>
  A call of \<^verbatim>\<open>startRecording\<close> as the event loop runs it. The guard runs when the call is
  made; each later piece runs when the awaited promise settles, and pieces of other
  calls may run in between. \<open>startStep\<close> runs the next piece of one call at clock \<open>now\<close>.
\<close>

datatype startCall =
    Called options
  | AwaitingOffscreen options
  | AwaitingCapture options
  | Returned "int response"

fun startStep :: "env \<Rightarrow> int \<Rightarrow> startCall \<Rightarrow> world \<Rightarrow> startCall \<times> world" where
  "startStep e now (Called opts) w =
     (if isRecording w then
        (case startFailed ''Recording already in progress'' w of (r, w') \<Rightarrow> (Returned r, w'))
      else (AwaitingOffscreen opts, w))"
| "startStep e now (AwaitingOffscreen opts) w =
     (if \<not> offscreenOk e then
        (case startFailed ''Failed to initialize recording system'' w of
           (r, w') \<Rightarrow> (Returned r, w'))
      else (AwaitingCapture opts, startIssue now opts w))"
| "startStep e now (AwaitingCapture opts) w =
     (case startSettle (captureReply e (START_CAPTURE (captureOptions opts))) w of
        (r, w') \<Rightarrow> (Returned r, w'))"
| "startStep e now (Returned r) w = (Returned r, w)"


text \<open>Decimal digits of \<^verbatim>\<open>Date.now()\<close>, for the template \<^verbatim>\<open>local-${Date.now()}\<close>.\<close>

fun showNat :: "nat \<Rightarrow> string" where
  "showNat n =
     (if n < 10 then [''0123456789'' ! n]
      else showNat (n div 10) @ [''0123456789'' ! (n mod 10)])"

declare showNat.simps [simp del]

text \<open>
  \<^verbatim>\<open>ApiService.uploadRecording(blob, metadata)\<close> (services/api-service.js). Handed
  anything but a \<^verbatim>\<open>Blob\<close>, \<^verbatim>\<open>formData.append('recording', blob, filename)\<close> throws a
  TypeError, which the method's own \<^verbatim>\<open>catch\<close> turns into a failure before any request
  is made.
\<close>

definition apiUploadRecording :: "env \<Rightarrow> payload \<Rightarrow> recording \<Rightarrow> world \<Rightarrow> upload_result \<times> world" where
  "apiUploadRecording e p metadata w =
     (case p of
        BlobObject content \<Rightarrow>
          (uploadRecording e content metadata, emit (UploadRequest content metadata) w)
      | DataUrl u \<Rightarrow>
          (UploadFailed ''Failed to execute append on FormData: parameter 2 is not of type Blob'',
           w))"

text \<open>String helpers of \<^verbatim>\<open>extractMeetingTitle\<close>.\<close>

definition startsWith :: "string \<Rightarrow> string \<Rightarrow> bool" where
  "startsWith s pat = (take (length pat) s = pat)"

text \<open>\<^verbatim>\<open>s.includes(pat)\<close> (\<open>includes\<close> is a keyword of Isabelle).\<close>

fun strIncludes :: "string \<Rightarrow> string \<Rightarrow> bool" where
  "strIncludes [] pat = (pat = [])"
| "strIncludes (c # cs) pat = (startsWith (c # cs) pat \<or> strIncludes cs pat)"

text \<open>\<^verbatim>\<open>s.replace(pat, rep)\<close> with a string pattern: the first occurrence only.\<close>

fun replaceFirst :: "string \<Rightarrow> string \<Rightarrow> string \<Rightarrow> string" where
  "replaceFirst pat rep [] = (if pat = [] then rep else [])"
| "replaceFirst pat rep (c # cs) =
     (if startsWith (c # cs) pat then rep @ drop (length pat) (c # cs)
      else c # replaceFirst pat rep cs)"

text \<open>\<^verbatim>\<open>s.replace(/^Meeting -, /, '')\<close>.\<close>

definition dropMeetingPrefix :: "string \<Rightarrow> string" where
  "dropMeetingPrefix s =
     (if startsWith s ''Meeting -, '' then drop (length ''Meeting -, '') s else s)"

text \<open>
  \<^verbatim>\<open>s.replace(/ - [^-]*$/, '')\<close>: the leftmost \<^verbatim>\<open>" - "\<close> after which no dash follows is
  cut off together with the rest of the string.
\<close>

fun dropDashSuffix :: "string \<Rightarrow> string" where
  "dropDashSuffix [] = []"
| "dropDashSuffix (c # cs) =
     (if startsWith (c # cs) '' - '' \<and> CHR ''-'' \<notin> set (drop 3 (c # cs)) then []
      else c # dropDashSuffix cs)"

text \<open>\<^verbatim>\<open>s.trim()\<close>, for the white space of ASCII.\<close>

definition isSpace :: "char \<Rightarrow> bool" where
  "isSpace c = (c \<in> set [CHR '' '', CHR 0x09, CHR 0x0A, CHR 0x0B, CHR 0x0C, CHR 0x0D])"

definition trim :: "string \<Rightarrow> string" where
  "trim s = rev (dropWhile isSpace (rev (dropWhile isSpace s)))"

text \<open>
  \<^verbatim>\<open>extractMeetingTitle(tab)\<close>; \<open>None\<close> is the TypeError of \<^verbatim>\<open>url.includes\<close> or
  \<^verbatim>\<open>title.replace\<close> on undefined.
\<close>

definition extractMeetingTitle :: "tab option \<Rightarrow> string option" where
  "extractMeetingTitle t =
     (case t of
        None \<Rightarrow> Some ''Meeting Recording''
      | Some tb \<Rightarrow>
          (case tabUrl tb of
             None \<Rightarrow> None
           | Some u \<Rightarrow>
               (if strIncludes u ''meet.google.com'' then
                  map_option
                    (\<lambda>ti. orString (Some (replaceFirst '' - Google Meet'' [] ti)) ''Google Meet'')
                    (tabTitle tb)
                else if strIncludes u ''zoom.us'' then
                  map_option
                    (\<lambda>ti. orString (Some (replaceFirst ''Zoom Meeting'' ''Zoom Meeting'' ti))
                            ''Zoom Meeting'')
                    (tabTitle tb)
                else if strIncludes u ''teams.microsoft.com'' then
                  map_option
                    (\<lambda>ti. orString (Some (replaceFirst '' | Microsoft Teams'' [] ti))
                            ''Microsoft Teams Meeting'')
                    (tabTitle tb)
                else if strIncludes u ''webex.com'' then
                  map_option
                    (\<lambda>ti. orString (Some (replaceFirst '' - Cisco Webex'' [] ti))
                            ''Webex Meeting'')
                    (tabTitle tb)
                else
                  map_option
                    (\<lambda>ti. orString (Some (trim (dropDashSuffix (dropMeetingPrefix ti))))
                            ''Meeting Recording'')
                    (tabTitle tb))))"

text \<open>\<^verbatim>\<open>currentTab?.url || ''\<close>.\<close>

definition tabUrlOrEmpty :: "tab option \<Rightarrow> string" where
  "tabUrlOrEmpty t = (case t of None \<Rightarrow> [] | Some tb \<Rightarrow> orString (tabUrl tb) [])"

text \<open>
  The \<^verbatim>\<open>metadata\<close> object of \<^verbatim>\<open>handleRecordingData\<close>; \<open>None\<close> when building it throws:
  \<^verbatim>\<open>extractMeetingTitle\<close> throws, or \<^verbatim>\<open>startTime\<close> is null at
  \<^verbatim>\<open>this.startTime.toISOString()\<close>. The two clock reads of \<^verbatim>\<open>endTime\<close> and of
  \<^verbatim>\<open>getDuration\<close> are one instant \<open>now\<close>.
\<close>

definition recordingMetadata :: "env \<Rightarrow> int \<Rightarrow> string \<Rightarrow> nat \<Rightarrow> world \<Rightarrow> recording option" where
  "recordingMetadata e now mime sizeBytes w =
     (case extractMeetingTitle (activeTab e) of
        None \<Rightarrow> None
      | Some ti \<Rightarrow>
          (case startTime w of
             None \<Rightarrow> None
           | Some st \<Rightarrow>
               Some \<lparr>rid = [], title = ti, url = tabUrlOrEmpty (activeTab e),
                     duration = getDuration now w, recStartTime = st, endTime = now,
                     fileSize = sizeBytes, mimeType = mime, isLocal = False,
                     needsSync = False, blob = None\<rparr>))"

text \<open>
  \<^verbatim>\<open>handleRecordingData({blob, mimeType, size})\<close> (\<open>sizeBytes\<close> is \<^verbatim>\<open>size\<close>); \<open>idNow\<close> is the
  later \<^verbatim>\<open>Date.now()\<close> of the local id. When the metadata cannot be built the outer
  \<^verbatim>\<open>catch\<close> only notifies: nothing is uploaded or stored and \<^verbatim>\<open>cleanup\<close> is not reached.
  The local record keeps \<^verbatim>\<open>blob\<close> as it was handed in (\<^verbatim>\<open>blob: blob\<close>).
\<close>

definition handleRecordingData ::
  "env \<Rightarrow> int \<Rightarrow> nat \<Rightarrow> payload \<Rightarrow> string \<Rightarrow> nat \<Rightarrow> world \<Rightarrow> world"
where
  "handleRecordingData e now idNow blobData mime sizeBytes w =
     (case recordingMetadata e now mime sizeBytes w of
        None \<Rightarrow> emit (Notification ''Recording Error'') w
      | Some metadata \<Rightarrow>
          cleanup
            (case apiUploadRecording e blobData metadata w of
               (UploadOk s, w1) \<Rightarrow> emit (Notification ''Recording Saved'') (addRecording s w1)
             | (UploadFailed err, w1) \<Rightarrow>
                 (let localRecording =
                        metadata\<lparr>rid := ''local-'' @ showNat idNow, isLocal := True,
                                 needsSync := True, blob := Some blobData\<rparr>
                  in emit (Notification ''Recording Saved Locally'')
                       (addLocalRecording localRecording w1))))"

section \<open>BackgroundService (background/service-worker.js)\<close>

text \<open>
  The service worker wraps the RecordingManager: on success it sets the badge, notifies
  all tabs and (for start and stop) raises a notification.
\<close>

definition bsStartRecording :: "env \<Rightarrow> int \<Rightarrow> options \<Rightarrow> world \<Rightarrow> int response \<times> world" where
  "bsStartRecording e now opts w =
     (case startRecording e now opts w of
        (Success st, w') \<Rightarrow>
          (Success st,
           emit (Notification ''Recording Started'')
             (emit (NotifyAllTabs ''RECORDING_STARTED'')
               (emit (SetBadgeBackgroundColor ''#EF4444'') (emit (SetBadgeText ''REC'') w'))))
      | (Failure msg, w') \<Rightarrow> (Failure msg, w'))"

definition bsStopRecording :: "env \<Rightarrow> world \<Rightarrow> unit response \<times> world" where
  "bsStopRecording e w =
     (case stopRecording e w of
        (Success u, w') \<Rightarrow>
          (Success u,
           emit (Notification ''Recording Stopped'')
             (emit (NotifyAllTabs ''RECORDING_STOPPED'') (emit (SetBadgeText []) w')))
      | (Failure msg, w') \<Rightarrow> (Failure msg, w'))"

definition bsPauseRecording :: "env \<Rightarrow> world \<Rightarrow> unit response \<times> world" where
  "bsPauseRecording e w =
     (case pauseRecording e w of
        (Success u, w') \<Rightarrow>
          (Success u, emit (NotifyAllTabs ''RECORDING_PAUSED'') (emit (SetBadgeText ''||'') w'))
      | (Failure msg, w') \<Rightarrow> (Failure msg, w'))"

definition bsResumeRecording :: "env \<Rightarrow> world \<Rightarrow> unit response \<times> world" where
  "bsResumeRecording e w =
     (case resumeRecording e w of
        (Success u, w') \<Rightarrow>
          (Success u, emit (NotifyAllTabs ''RECORDING_RESUMED'') (emit (SetBadgeText ''REC'') w'))
      | (Failure msg, w') \<Rightarrow> (Failure msg, w'))"

section \<open>PopupController.startRecording (ui/popup.js)\<close>

text \<open>
  The popup reads its three checkboxes, refuses to go on when neither screen nor audio
  is ticked, and otherwise sends \<^verbatim>\<open>START_RECORDING\<close> to the service worker. Its own copy of
  the status is the \<open>recordingStatus\<close> record; DOM rendering is left out.
\<close>

record recordingStatus =
  rsIsRecording :: bool
  rsIsPaused :: bool
  rsStartTime :: "int option"

definition popupStartRecording ::
  "env \<Rightarrow> int \<Rightarrow> bool \<Rightarrow> bool \<Rightarrow> bool \<Rightarrow> recordingStatus \<times> world \<Rightarrow> recordingStatus \<times> world"
where
  "popupStartRecording e now scr aud sys pw =
     (case pw of (ps, w) \<Rightarrow>
        (let w0 = emit (ShowMessage ''Starting recording...'' ''info'') w;
             opts = \<lparr>includeScreen = Some scr, includeAudio = Some aud,
                     includeSystemAudio = Some sys, videoQuality = None, audioQuality = None\<rparr>
         in if \<not> scr \<and> \<not> aud then
              (ps, emit (ShowMessage ''Please select at least one recording option'' ''error'') w0)
            else
              (case bsStartRecording e now opts w0 of
                 (Success st, w1) \<Rightarrow>
                   (\<lparr>rsIsRecording = True, rsIsPaused = False, rsStartTime = Some st\<rparr>,
                    emit (ShowMessage
                            ''Recording started! Use the on-screen widget for controls.''
                            ''success'') w1)
               | (Failure msg, w1) \<Rightarrow>
                   (ps, emit (ShowMessage (orString (Some msg) ''Failed to start recording'')
                                ''error'') w1))))"

section \<open>RecordingManager of the single-file controller (background.js)\<close>

text \<open>
  background.js carries its own RecordingManager, without pause and resume. Its state is
  kept apart from the services' \<open>world\<close>. \<^verbatim>\<open>notifyTabsRecordingStatus(b)\<close> is the effect
  \<open>UpdateRecordingStatus b\<close>; \<^verbatim>\<open>sendToOffscreen\<close> does not wait for an answer.
\<close>

datatype bgEffect =
    BgToOffscreen capture_cmd
  | BgSetBadgeText string
  | BgSetBadgeBackgroundColor string
  | UpdateRecordingStatus bool
  | BgUploadRequest string recording
  | BgStorageSet string
  | BgNotification string

record bgWorld =
  bgIsRecording :: bool
  bgStartTime :: "int option"
  offscreenReady :: bool
  bgRecordings :: "recording list"
  bgLocalRecordings :: "recording list"
  bgTrace :: "bgEffect list"

definition bgEmit :: "bgEffect \<Rightarrow> bgWorld \<Rightarrow> bgWorld" where
  "bgEmit x w = w\<lparr>bgTrace := bgTrace w @ [x]\<rparr>"

text \<open>The \<^verbatim>\<open>catch\<close> of \<^verbatim>\<open>startRecording\<close> in background.js.\<close>

definition bgStartFailed :: "string \<Rightarrow> bgWorld \<Rightarrow> string response \<times> bgWorld" where
  "bgStartFailed msg w =
     (Failure msg,
      bgEmit (UpdateRecordingStatus False)
        (bgEmit (BgSetBadgeText []) (w\<lparr>bgIsRecording := False\<rparr>)))"

text \<open>
  What \<^verbatim>\<open>startRecording\<close> of background.js does once \<^verbatim>\<open>ensureOffscreenDocument\<close> has
  resolved (\<open>bgStartMark\<close>: the status fields, the badge, the notification of the tabs),
  and once the tabs have been notified (\<open>bgStartSend\<close>: the capture command).
\<close>

definition bgStartMark :: "int \<Rightarrow> bgWorld \<Rightarrow> bgWorld" where
  "bgStartMark now w =
     bgEmit (UpdateRecordingStatus True)
       (bgEmit (BgSetBadgeBackgroundColor ''#ff0000'')
         (bgEmit (BgSetBadgeText ''REC'')
           (w\<lparr>offscreenReady := True, bgIsRecording := True, bgStartTime := Some now\<rparr>)))"

definition bgStartSend :: "options \<Rightarrow> bgWorld \<Rightarrow> bgWorld" where
  "bgStartSend opts w = bgEmit (BgToOffscreen (START_CAPTURE (captureOptions opts))) w"

text \<open>\<open>offscreenError\<close> is the message of whatever \<^verbatim>\<open>chrome.offscreen.createDocument\<close> threw.\<close>

definition bgStartRecording ::
  "env \<Rightarrow> string \<Rightarrow> int \<Rightarrow> options \<Rightarrow> bgWorld \<Rightarrow> string response \<times> bgWorld"
where
  "bgStartRecording e offscreenError now opts w =
     (if bgIsRecording w then bgStartFailed ''Recording already in progress'' w
      else if \<not> offscreenOk e then bgStartFailed offscreenError w
      else (Success ''Recording started'', bgStartSend opts (bgStartMark now w)))"

text \<open>The same call piece by piece, as \<open>startStep\<close> above.\<close>

datatype bgStartCall =
    BgCalled options
  | BgAwaitingOffscreen options
  | BgAwaitingTabs options
  | BgReturned "string response"

fun bgStartStep ::
  "env \<Rightarrow> string \<Rightarrow> int \<Rightarrow> bgStartCall \<Rightarrow> bgWorld \<Rightarrow> bgStartCall \<times> bgWorld"
where
  "bgStartStep e offscreenError now (BgCalled opts) w =
     (if bgIsRecording w then
        (case bgStartFailed ''Recording already in progress'' w of
           (r, w') \<Rightarrow> (BgReturned r, w'))
      else (BgAwaitingOffscreen opts, w))"
| "bgStartStep e offscreenError now (BgAwaitingOffscreen opts) w =
     (if \<not> offscreenOk e then
        (case bgStartFailed offscreenError w of (r, w') \<Rightarrow> (BgReturned r, w'))
      else (BgAwaitingTabs opts, bgStartMark now w))"
| "bgStartStep e offscreenError now (BgAwaitingTabs opts) w =
     (BgReturned (Success ''Recording started''), bgStartSend opts w)"
| "bgStartStep e offscreenError now (BgReturned r) w = (BgReturned r, w)"

definition bgStopRecording :: "bgWorld \<Rightarrow> string response \<times> bgWorld" where
  "bgStopRecording w =
     (if \<not> bgIsRecording w then (Failure ''No recording in progress'', w)
      else
        (Success ''Recording stopped'',
         bgEmit (UpdateRecordingStatus False)
           (bgEmit (BgSetBadgeText [])
             ((bgEmit (BgToOffscreen STOP_CAPTURE) w)\<lparr>bgIsRecording := False\<rparr>))))"

text \<open>\<^verbatim>\<open>storeRecordingMetadata\<close>: unshift, keep the first 100.\<close>

definition bgStoreRecordingMetadata :: "recording \<Rightarrow> bgWorld \<Rightarrow> bgWorld" where
  "bgStoreRecordingMetadata r w =
     bgEmit (BgStorageSet ''recordings'') (w\<lparr>bgRecordings := take 100 (r # bgRecordings w)\<rparr>)"

text \<open>
  \<^verbatim>\<open>Object.assign(target, body)\<close> on the keys of a recording; an unknown key leaves them
  alone.
\<close>

fun assignKey :: "recording \<Rightarrow> bodyKey \<Rightarrow> recording" where
  "assignKey r (KId v) = r\<lparr>rid := v\<rparr>"
| "assignKey r (KTitle v) = r\<lparr>title := v\<rparr>"
| "assignKey r (KUrl v) = r\<lparr>url := v\<rparr>"
| "assignKey r (KDuration v) = r\<lparr>duration := v\<rparr>"
| "assignKey r (KStartTime v) = r\<lparr>recStartTime := v\<rparr>"
| "assignKey r (KEndTime v) = r\<lparr>endTime := v\<rparr>"
| "assignKey r (KFileSize v) = r\<lparr>fileSize := v\<rparr>"
| "assignKey r (KMimeType v) = r\<lparr>mimeType := v\<rparr>"
| "assignKey r (KIsLocal v) = r\<lparr>isLocal := v\<rparr>"
| "assignKey r (KNeedsSync v) = r\<lparr>needsSync := v\<rparr>"
| "assignKey r (KData v) = r\<lparr>blob := v\<rparr>"
| "assignKey r (KOther k) = r"

definition objectAssign :: "recording \<Rightarrow> bodyKey list \<Rightarrow> recording" where
  "objectAssign r body = foldl assignKey r body"

text \<open>A body seen as a recording: the keys it has, every other key absent.\<close>

definition bodyRecord :: "bodyKey list \<Rightarrow> recording" where
  "bodyRecord body =
     objectAssign
       \<lparr>rid = [], title = [], url = [], duration = 0, recStartTime = 0, endTime = 0,
        fileSize = 0, mimeType = [], isLocal = False, needsSync = False, blob = None\<rparr>
       body"

text \<open>
  \<^verbatim>\<open>storeRecordingLocally(blob, metadata)\<close>: \<^verbatim>\<open>blobToBase64\<close> turns the \<^verbatim>\<open>Blob\<close> into a data
  URL, kept under \<^verbatim>\<open>data\<close> with the metadata; unshift, keep the first 10.
\<close>

definition bgStoreRecordingLocally :: "nat \<Rightarrow> string \<Rightarrow> recording \<Rightarrow> bgWorld \<Rightarrow> bgWorld" where
  "bgStoreRecordingLocally idNow blobContent metadata w =
     (let localRecording =
            metadata\<lparr>rid := ''local-'' @ showNat idNow, isLocal := True,
                     blob := Some (DataUrl blobContent), needsSync := True\<rparr>
      in bgEmit (BgStorageSet ''localRecordings'')
           (w\<lparr>bgLocalRecordings := take 10 (localRecording # bgLocalRecordings w)\<rparr>))"

text \<open>\<^verbatim>\<open>currentTab?.title || 'Untitled Meeting'\<close>.\<close>

definition tabTitleOrUntitled :: "tab option \<Rightarrow> string" where
  "tabTitleOrUntitled t =
     (case t of
        None \<Rightarrow> ''Untitled Meeting''
      | Some tb \<Rightarrow> orString (tabTitle tb) ''Untitled Meeting'')"

text \<open>
  \<^verbatim>\<open>handleRecordingComplete(recordingData)\<close>; \<open>blobUrl\<close> is \<^verbatim>\<open>recordingData.blob\<close>.
  \<^verbatim>\<open>Math.round\<close> of the seconds is \<open>(ms + 500) div 1000\<close>. A payload that cannot be
  fetched and a null \<^verbatim>\<open>startTime\<close> both throw into the \<^verbatim>\<open>catch\<close>, which only notifies.
\<close>

definition bgHandleRecordingComplete ::
  "env \<Rightarrow> int \<Rightarrow> nat \<Rightarrow> payload \<Rightarrow> string \<Rightarrow> nat \<Rightarrow> bgWorld \<Rightarrow> bgWorld"
where
  "bgHandleRecordingComplete e now idNow blobUrl mime sizeBytes w =
     (case (fetchBlob e (Some blobUrl), bgStartTime w) of
        (Some recordingBlob, Some st) \<Rightarrow>
          (let metadata =
                 \<lparr>rid = [], title = tabTitleOrUntitled (activeTab e),
                  url = tabUrlOrEmpty (activeTab e),
                  duration = (now - st + 500) div 1000, recStartTime = st, endTime = now,
                  fileSize = sizeBytes, mimeType = mime, isLocal = False,
                  needsSync = False, blob = None\<rparr>;
               w1 = bgEmit (BgUploadRequest recordingBlob metadata) w
           in case bgUploadRecording e recordingBlob metadata of
                BgUploadOk body \<Rightarrow>
                  bgEmit (BgNotification ''Recording Saved'')
                    (bgStoreRecordingMetadata (bodyRecord body) w1)
              | BgUploadFailed err \<Rightarrow>
                  bgEmit (BgNotification ''Recording Saved Locally'')
                    (bgStoreRecordingLocally idNow recordingBlob metadata w1))
      | _ \<Rightarrow> bgEmit (BgNotification ''Recording Error'') w)"

text \<open>
  \<^verbatim>\<open>syncPendingRecordings\<close> of background.js. \<^verbatim>\<open>pendingRecordings\<close> holds the very objects
  of \<^verbatim>\<open>localRecordings\<close>, so the loop's assignments change the list that is written back:
  the model walks \<^verbatim>\<open>localRecordings\<close> and rewrites the entries with \<^verbatim>\<open>needsSync\<close> set.
  After a successful upload the entry gets \<^verbatim>\<open>needsSync = false\<close>, \<^verbatim>\<open>isLocal = false\<close>,
  \<^verbatim>\<open>data = null\<close> and then \<^verbatim>\<open>Object.assign(recording, uploadResult.data)\<close>.
\<close>

definition bgMetadataOf :: "recording \<Rightarrow> recording" where
  "bgMetadataOf r = r\<lparr>rid := [], isLocal := False, needsSync := False, blob := None\<rparr>"

fun bgSyncLoop ::
  "env \<Rightarrow> recording list \<Rightarrow> nat \<times> bgWorld \<Rightarrow> recording list \<times> nat \<times> bgWorld"
where
  "bgSyncLoop e [] (n, w) = ([], n, w)"
| "bgSyncLoop e (r # rs) (n, w) =
     (if \<not> needsSync r then
        (case bgSyncLoop e rs (n, w) of (rs', n', w') \<Rightarrow> (r # rs', n', w'))
      else
        (case fetchBlob e (blob r) of
           None \<Rightarrow> (case bgSyncLoop e rs (n, w) of (rs', n', w') \<Rightarrow> (r # rs', n', w'))
         | Some b \<Rightarrow>
             (let w1 = bgEmit (BgUploadRequest b (bgMetadataOf r)) w
              in case bgUploadRecording e b (bgMetadataOf r) of
                   BgUploadFailed err \<Rightarrow>
                     (case bgSyncLoop e rs (n, w1) of
                        (rs', n', w') \<Rightarrow> (r # rs', n', w'))
                 | BgUploadOk body \<Rightarrow>
                     (case bgSyncLoop e rs (Suc n, w1) of
                        (rs', n', w') \<Rightarrow>
                          (objectAssign
                             (r\<lparr>needsSync := False, isLocal := False, blob := None\<rparr>) body
                             # rs', n', w')))))"

definition bgSyncPendingRecordings :: "env \<Rightarrow> bgWorld \<Rightarrow> nat response \<times> bgWorld" where
  "bgSyncPendingRecordings e w =
     (let pendingRecordings = filter needsSync (bgLocalRecordings w) in
      if length pendingRecordings = 0 then (Success 0, w)
      else
        (case bgSyncLoop e (bgLocalRecordings w) (0, w) of
           (localRecordings', syncedCount, w') \<Rightarrow>
             (Success syncedCount,
              bgEmit (BgStorageSet ''localRecordings'')
                (w'\<lparr>bgLocalRecordings := localRecordings'\<rparr>))))"

section \<open>Notions used to state the properties\<close>

text \<open>
  The server record when the upload of a pending record goes through: its payload could
  be fetched and \<^verbatim>\<open>uploadRecording\<close> answered with success.
\<close>

definition uploadOutcome :: "env \<Rightarrow> recording \<Rightarrow> recording option" where
  "uploadOutcome e r =
     (case fetchBlob e (blob r) of
        None \<Rightarrow> None
      | Some b \<Rightarrow>
          (case uploadRecording e b (r\<lparr>blob := None\<rparr>) of
             UploadOk s \<Rightarrow> Some s
           | UploadFailed err \<Rightarrow> None))"

text \<open>What one reconciliation is expected to leave in the place of a local record.\<close>

definition reconciled :: "env \<Rightarrow> recording \<Rightarrow> recording" where
  "reconciled e r =
     (if needsSync r then
        (case uploadOutcome e r of None \<Rightarrow> r | Some s \<Rightarrow> markSynced s)
      else r)"

text \<open>No id the server assigns to a pending record is the id of a record of the list.\<close>

definition serverIdsFresh :: "env \<Rightarrow> recording list \<Rightarrow> bool" where
  "serverIdsFresh e rs =
     (\<forall>r \<in> set (filter needsSync rs).
        case uploadOutcome e r of
          None \<Rightarrow> True
        | Some s \<Rightarrow> rid s \<notin> rid ` set rs)"

text \<open>The same two notions for the reconciliation of background.js.\<close>

definition bgUploadOutcome :: "env \<Rightarrow> recording \<Rightarrow> bodyKey list option" where
  "bgUploadOutcome e r =
     (case fetchBlob e (blob r) of
        None \<Rightarrow> None
      | Some b \<Rightarrow>
          (case bgUploadRecording e b (bgMetadataOf r) of
             BgUploadOk body \<Rightarrow> Some body
           | BgUploadFailed err \<Rightarrow> None))"

definition bgReconciled :: "env \<Rightarrow> recording \<Rightarrow> recording" where
  "bgReconciled e r =
     (if needsSync r then
        (case bgUploadOutcome e r of
           None \<Rightarrow> r
         | Some body \<Rightarrow>
             objectAssign (r\<lparr>needsSync := False, isLocal := False, blob := None\<rparr>) body)
      else r)"

text \<open>A body that brings neither a \<^verbatim>\<open>data\<close> nor a \<^verbatim>\<open>needsSync\<close> key.\<close>

fun plainKey :: "bodyKey \<Rightarrow> bool" where
  "plainKey (KData v) = False"
| "plainKey (KNeedsSync v) = False"
| "plainKey k = True"

text \<open>A record is stale when it is marked synced and still carries its payload.\<close>

definition stale :: "recording \<Rightarrow> bool" where
  "stale r = (\<not> needsSync r \<and> blob r \<noteq> None)"

text \<open>No id occurs in both collections.\<close>

definition disjointById :: "world \<Rightarrow> bool" where
  "disjointById w = (rid ` set (recordings w) \<inter> rid ` set (localRecordings w) = {})"

section \<open>Sample inputs\<close>

definition idleWorld :: world where
  "idleWorld =
     \<lparr>isRecording = False, isPaused = False, startTime = None, pausedTime = 0,
      recordings = [], localRecordings = [], trace = []\<rparr>"

definition bgIdleWorld :: bgWorld where
  "bgIdleWorld =
     \<lparr>bgIsRecording = False, bgStartTime = None, offscreenReady = False,
      bgRecordings = [], bgLocalRecordings = [], bgTrace = []\<rparr>"

text \<open>
  Surroundings in which everything works. \<^verbatim>\<open>fetch\<close> reads a data URL and rejects for
  anything else. The remote store accepts every upload; its record is the metadata it
  was sent, under the id \<^verbatim>\<open>srv-\<close> + the start time, without payload key and without
  local flags; to background.js it answers with the body \<^verbatim>\<open>{success, recording}\<close>. The
  active tab is a Google Meet call.
\<close>

definition onlineEnv :: env where
  "onlineEnv =
     \<lparr>offscreenOk = True, captureReply = (\<lambda>c. Response True None),
      fetchBlob = (\<lambda>p. case p of Some (DataUrl content) \<Rightarrow> Some content | _ \<Rightarrow> None),
      uploadRecording =
        (\<lambda>b m. UploadOk (m\<lparr>rid := ''srv-'' @ showNat (nat (recStartTime m)),
                           isLocal := False, needsSync := False, blob := None\<rparr>)),
      bgUploadRecording = (\<lambda>b m. BgUploadOk [KOther ''success'', KOther ''recording'']),
      activeTab = Some \<lparr>tabTitle = Some ''Standup - Google Meet'',
                        tabUrl = Some ''https://meet.google.com/abc''\<rparr>\<rparr>"

text \<open>The same surroundings with every upload failing.\<close>

definition offlineEnv :: env where
  "offlineEnv =
     onlineEnv\<lparr>uploadRecording := (\<lambda>b m. UploadFailed ''Failed to fetch''),
               bgUploadRecording := (\<lambda>b m. BgUploadFailed ''Failed to fetch'')\<rparr>"


definition screenAndAudio :: options where
  "screenAndAudio =
     \<lparr>includeScreen = Some True, includeAudio = Some True, includeSystemAudio = Some False,
      videoQuality = None, audioQuality = None\<rparr>"

definition emptyOptions :: options where
  "emptyOptions =
     \<lparr>includeScreen = None, includeAudio = None, includeSystemAudio = None,
      videoQuality = None, audioQuality = None\<rparr>"

text \<open>A session started at 0 ms, paused at 10 s, resumed at 20 s, stopped at 30 s.\<close>

definition startedWorld :: world where
  "startedWorld = snd (startRecording onlineEnv 0 screenAndAudio idleWorld)"

definition pausedWorld :: world where
  "pausedWorld = snd (pauseRecording onlineEnv startedWorld)"

definition resumedWorld :: world where
  "resumedWorld = snd (resumeRecording onlineEnv pausedWorld)"

definition stoppedWorld :: world where
  "stoppedWorld = snd (stopRecording onlineEnv resumedWorld)"

text \<open>
  The stopped session after its recording arrived, as a data URL, while the remote
  store was unreachable.
\<close>

definition savedLocallyWorld :: world where
  "savedLocallyWorld =
     handleRecordingData offlineEnv 30000 30005 (DataUrl ''data'') ''video/webm'' 1234
       stoppedWorld"

text \<open>A local collection whose only record has been synced already.\<close>

definition syncedLocalWorld :: world where
  "syncedLocalWorld =
     idleWorld\<lparr>localRecordings := map markSynced (localRecordings savedLocallyWorld)\<rparr>"


definition pendingRecord :: "string \<Rightarrow> int \<Rightarrow> string \<Rightarrow> recording" where
  "pendingRecord i st b =
     \<lparr>rid = i, title = ''Standup'', url = ''https://meet.google.com/abc'', duration = 60,
      recStartTime = st, endTime = st + 60000, fileSize = 1234, mimeType = ''video/webm'',
      isLocal = True, needsSync = True, blob = Some (DataUrl b)\<rparr>"

text \<open>Three local records: two pending (the second with the refused payload), one synced.\<close>

definition mixedWorld :: world where
  "mixedWorld =
     idleWorld\<lparr>localRecordings :=
       [pendingRecord ''local-3'' 3000 ''good'', pendingRecord ''local-2'' 2000 ''bad'',
        markSynced (pendingRecord ''srv-1'' 1000 ''old'')]\<rparr>"


text \<open>What \<open>onlineEnv\<close> answers to the upload of the record of \<open>savedLocallyWorld\<close>.\<close>

definition serverRecord0 :: recording where
  "serverRecord0 =
     \<lparr>rid = ''srv-0'', title = ''Standup'', url = ''https://meet.google.com/abc'',
      duration = 0, recStartTime = 0, endTime = 30000, fileSize = 1234,
      mimeType = ''video/webm'', isLocal = False, needsSync = False, blob = None\<rparr>"

definition noSources :: options where
  "noSources =
     \<lparr>includeScreen = Some False, includeAudio = Some False, includeSystemAudio = Some False,
      videoQuality = None, audioQuality = None\<rparr>"

text \<open>The local collection of \<open>mixedWorld\<close> in the store of background.js.\<close>

definition bgMixedWorld :: bgWorld where
  "bgMixedWorld = bgIdleWorld\<lparr>bgLocalRecordings := localRecordings mixedWorld\<rparr>"

definition bgStartedWorld :: bgWorld where
  "bgStartedWorld = snd (bgStartRecording onlineEnv [] 0 screenAndAudio bgIdleWorld)"

section \<open>Evaluating the sample session\<close>

lemmas manager_defs = startRecording_def startIssue_def startSettle_def startFailed_def
  stopRecording_def stopIssue_def stopSettle_def pauseRecording_def pauseIssue_def
  pauseSettle_def resumeRecording_def resumeIssue_def resumeSettle_def cleanup_def emit_def

lemma captureOptions_screenAndAudio:
  "captureOptions screenAndAudio =
     \<lparr>includeScreen = Some True, includeAudio = Some True, includeSystemAudio = Some False,
      videoQuality = Some ''medium'', audioQuality = Some ''medium''\<rparr>"
  by (simp add: captureOptions_def screenAndAudio_def orFalse_def orString_def)

lemma onlineEnv_sel:
  "offscreenOk onlineEnv" "captureReply onlineEnv c = Response True None"
  "fetchBlob onlineEnv (Some (DataUrl content)) = Some content"
  "fetchBlob onlineEnv None = None"
  by (simp_all add: onlineEnv_def)

lemma sampleTab:
  "extractMeetingTitle (activeTab onlineEnv) = Some ''Standup''"
  "tabUrlOrEmpty (activeTab onlineEnv) = ''https://meet.google.com/abc''"
  "activeTab offlineEnv = activeTab onlineEnv"
  by (simp_all add: onlineEnv_def offlineEnv_def extractMeetingTitle_def tabUrlOrEmpty_def
      startsWith_def orString_def)

lemma showNat_samples:
  "showNat 0 = ''0''" "showNat 1000 = ''1000''" "showNat 3000 = ''3000''"
  "showNat 30005 = ''30005''"
  by (simp_all add: showNat.simps)

lemma startedWorld_eq:
  "startedWorld =
     \<lparr>isRecording = True, isPaused = False, startTime = Some 0, pausedTime = 0,
      recordings = [], localRecordings = [],
      trace = [ToOffscreen (START_CAPTURE (captureOptions screenAndAudio))]\<rparr>"
  by (simp add: startedWorld_def idleWorld_def manager_defs onlineEnv_sel)

lemma pausedWorld_eq:
  "pausedWorld =
     \<lparr>isRecording = True, isPaused = True, startTime = Some 0, pausedTime = 0,
      recordings = [], localRecordings = [],
      trace = [ToOffscreen (START_CAPTURE (captureOptions screenAndAudio)),
               ToOffscreen PAUSE_CAPTURE]\<rparr>"
  by (simp add: pausedWorld_def startedWorld_eq manager_defs onlineEnv_sel)

lemma resumedWorld_eq:
  "resumedWorld =
     \<lparr>isRecording = True, isPaused = False, startTime = Some 0, pausedTime = 0,
      recordings = [], localRecordings = [],
      trace = [ToOffscreen (START_CAPTURE (captureOptions screenAndAudio)),
               ToOffscreen PAUSE_CAPTURE, ToOffscreen RESUME_CAPTURE]\<rparr>"
  by (simp add: resumedWorld_def pausedWorld_eq manager_defs onlineEnv_sel)

lemma stoppedWorld_eq:
  "stoppedWorld =
     \<lparr>isRecording = False, isPaused = False, startTime = Some 0, pausedTime = 0,
      recordings = [], localRecordings = [],
      trace = [ToOffscreen (START_CAPTURE (captureOptions screenAndAudio)),
               ToOffscreen PAUSE_CAPTURE, ToOffscreen RESUME_CAPTURE,
               ToOffscreen STOP_CAPTURE]\<rparr>"
  by (simp add: stoppedWorld_def resumedWorld_eq manager_defs onlineEnv_sel)


lemma apiUploadRecording_world:
  "localRecordings (snd (apiUploadRecording e p m w)) = localRecordings w"
  "recordings (snd (apiUploadRecording e p m w)) = recordings w"
  by (simp_all add: apiUploadRecording_def emit_def split: payload.splits)

lemma handleRecordingData_failed:
  assumes "recordingMetadata e now mime sz w = Some m"
    and "fst (apiUploadRecording e p m w) = UploadFailed err"
  shows "localRecordings (handleRecordingData e now idNow p mime sz w)
           = take 50 (m\<lparr>rid := ''local-'' @ showNat idNow, isLocal := True,
                         needsSync := True, blob := Some p\<rparr> # localRecordings w)"
    and "recordings (handleRecordingData e now idNow p mime sz w) = recordings w"
    and "last (trace (handleRecordingData e now idNow p mime sz w))
           = Notification ''Recording Saved Locally''"
proof -
  obtain w1 where u: "apiUploadRecording e p m w = (UploadFailed err, w1)"
    using assms(2) by (cases "apiUploadRecording e p m w") simp
  have w1: "localRecordings w1 = localRecordings w" "recordings w1 = recordings w"
    using apiUploadRecording_world [of e p m w] u by simp_all
  show "localRecordings (handleRecordingData e now idNow p mime sz w)
           = take 50 (m\<lparr>rid := ''local-'' @ showNat idNow, isLocal := True,
                         needsSync := True, blob := Some p\<rparr> # localRecordings w)"
    by (simp add: handleRecordingData_def assms(1) u w1 addLocalRecording_def emit_def
        cleanup_def)
  show "recordings (handleRecordingData e now idNow p mime sz w) = recordings w"
    by (simp add: handleRecordingData_def assms(1) u w1 addLocalRecording_def emit_def
        cleanup_def)
  show "last (trace (handleRecordingData e now idNow p mime sz w))
           = Notification ''Recording Saved Locally''"
    by (simp add: handleRecordingData_def assms(1) u addLocalRecording_def emit_def
        cleanup_def)
qed



lemma stoppedWorld_metadata:
  "recordingMetadata offlineEnv 30000 ''video/webm'' 1234 stoppedWorld
     = Some \<lparr>rid = [], title = ''Standup'', url = ''https://meet.google.com/abc'',
             duration = 0, recStartTime = 0, endTime = 30000, fileSize = 1234,
             mimeType = ''video/webm'', isLocal = False, needsSync = False, blob = None\<rparr>"
  by (simp add: recordingMetadata_def sampleTab stoppedWorld_eq getDuration_def)

lemma savedLocallyWorld_local:
  "localRecordings savedLocallyWorld
     = [\<lparr>rid = ''local-30005'', title = ''Standup'', url = ''https://meet.google.com/abc'',
         duration = 0, recStartTime = 0, endTime = 30000, fileSize = 1234,
         mimeType = ''video/webm'', isLocal = True, needsSync = True,
         blob = Some (DataUrl ''data'')\<rparr>]"
  "recordings savedLocallyWorld = []"
proof -
  have u: "fst (apiUploadRecording offlineEnv (DataUrl ''data'') m stoppedWorld)
             = UploadFailed
                 ''Failed to execute append on FormData: parameter 2 is not of type Blob''"
    for m
    by (simp add: apiUploadRecording_def)
  have e: "localRecordings stoppedWorld = []" "recordings stoppedWorld = []"
    by (simp_all add: stoppedWorld_eq)
  show "localRecordings savedLocallyWorld
     = [\<lparr>rid = ''local-30005'', title = ''Standup'', url = ''https://meet.google.com/abc'',
         duration = 0, recStartTime = 0, endTime = 30000, fileSize = 1234,
         mimeType = ''video/webm'', isLocal = True, needsSync = True,
         blob = Some (DataUrl ''data'')\<rparr>]"
    unfolding savedLocallyWorld_def handleRecordingData_failed(1) [OF stoppedWorld_metadata u]
    by (simp add: e showNat_samples)
  show "recordings savedLocallyWorld = []"
    unfolding savedLocallyWorld_def handleRecordingData_failed(2) [OF stoppedWorld_metadata u]
    by (rule e)
qed

lemma bgStartedWorld_eq:
  "bgStartedWorld =
     \<lparr>bgIsRecording = True, bgStartTime = Some 0, offscreenReady = True,
      bgRecordings = [], bgLocalRecordings = [],
      bgTrace = [BgSetBadgeText ''REC'', BgSetBadgeBackgroundColor ''#ff0000'',
                 UpdateRecordingStatus True,
                 BgToOffscreen (START_CAPTURE (captureOptions screenAndAudio))]\<rparr>"
  by (simp add: bgStartedWorld_def bgIdleWorld_def bgStartRecording_def bgStartMark_def
      bgStartSend_def bgEmit_def onlineEnv_sel)

lemma startRecording_while_recording:
  "isRecording w \<Longrightarrow>
   startRecording e now opts w = (Failure ''Recording already in progress'', cleanup w)"
  by (simp add: startRecording_def startFailed_def)

lemma bgStartRecording_while_recording:
  "bgIsRecording w \<Longrightarrow>
   bgStartRecording e msg now opts w =
     (Failure ''Recording already in progress'',
      w\<lparr>bgIsRecording := False,
        bgTrace := bgTrace w @ [BgSetBadgeText [], UpdateRecordingStatus False]\<rparr>)"
  by (simp add: bgStartRecording_def bgStartFailed_def bgEmit_def)


section \<open>Duration and pauses\<close>

lemma pauseRecording_pausedTime: "pausedTime (snd (pauseRecording e w)) = pausedTime w"
  by (simp add: pauseRecording_def pauseSettle_def pauseIssue_def emit_def split: reply.splits)

lemma resumeRecording_pausedTime: "pausedTime (snd (resumeRecording e w)) = pausedTime w"
  by (simp add: resumeRecording_def resumeSettle_def resumeIssue_def emit_def split: reply.splits)

text \<open>
  Claim C1. The duration computed at completion should be the wall-clock time since
  \<^verbatim>\<open>startTime\<close> minus the seconds spent paused, frozen while paused. On the session
  started at 0 s, paused from 10 s to 20 s and stopped at 30 s the code gives something
  else: while paused the duration still advances (10 at 10 s, 20 at 20 s), \<^verbatim>\<open>pausedTime\<close>
  is still 0 after the resume, the duration at 30 s is 30 rather than 20, and once
  \<^verbatim>\<open>stopRecording\<close> has cleared \<^verbatim>\<open>isRecording\<close> the duration is 0, which is the value
  \<^verbatim>\<open>handleRecordingData\<close> stores in the record.
\<close>

theorem C1_duration_ignores_pauses:
  "getDuration 10000 pausedWorld = 10 \<and> getDuration 20000 pausedWorld = 20 \<and>
   pausedTime resumedWorld = 0 \<and> getDuration 30000 resumedWorld = 30 \<and>
   getDuration 30000 stoppedWorld = 0 \<and>
   map duration (localRecordings
     (handleRecordingData offlineEnv 30000 30005 (DataUrl ''data'') ''video/webm'' 1234
        stoppedWorld)) = [0]"
proof -
  have "getDuration 10000 pausedWorld = 10" "getDuration 20000 pausedWorld = 20"
    by (simp_all add: pausedWorld_eq getDuration_def)
  moreover have "pausedTime resumedWorld = 0" "getDuration 30000 resumedWorld = 30"
    by (simp_all add: resumedWorld_eq getDuration_def)
  moreover have "getDuration 30000 stoppedWorld = 0"
    by (simp add: stoppedWorld_eq getDuration_def)
  moreover have "map duration (localRecordings savedLocallyWorld) = [0]"
    by (simp add: savedLocallyWorld_local)
  ultimately show ?thesis
    by (simp add: savedLocallyWorld_def)
qed


section \<open>A second start\<close>

text \<open>
  Claim C2. A start while Recording or Paused should fail and change nothing. Both
  managers do fail with \<^verbatim>\<open>Recording already in progress\<close>, but the \<^verbatim>\<open>throw\<close> lands in the
  \<^verbatim>\<open>catch\<close> that rolls a failed start back: the services' manager runs \<^verbatim>\<open>cleanup\<close>
  (\<^verbatim>\<open>isRecording\<close>, \<^verbatim>\<open>isPaused\<close> false, \<^verbatim>\<open>startTime\<close> null), background.js clears
  \<^verbatim>\<open>isRecording\<close> and the badge and tells every tab that recording has ended.
\<close>

theorem C2_second_start_resets_session:
  "isRecording startedWorld \<and> startTime startedWorld = Some 0 \<and>
   fst (startRecording onlineEnv 5000 screenAndAudio startedWorld)
     = Failure ''Recording already in progress'' \<and>
   \<not> isRecording (snd (startRecording onlineEnv 5000 screenAndAudio startedWorld)) \<and>
   startTime (snd (startRecording onlineEnv 5000 screenAndAudio startedWorld)) = None \<and>
   isRecording pausedWorld \<and> isPaused pausedWorld \<and>
   \<not> isRecording (snd (startRecording onlineEnv 15000 screenAndAudio pausedWorld)) \<and>
   \<not> isPaused (snd (startRecording onlineEnv 15000 screenAndAudio pausedWorld)) \<and>
   bgIsRecording bgStartedWorld \<and>
   fst (bgStartRecording onlineEnv [] 5000 screenAndAudio bgStartedWorld)
     = Failure ''Recording already in progress'' \<and>
   \<not> bgIsRecording (snd (bgStartRecording onlineEnv [] 5000 screenAndAudio bgStartedWorld)) \<and>
   bgTrace (snd (bgStartRecording onlineEnv [] 5000 screenAndAudio bgStartedWorld))
     = bgTrace bgStartedWorld @ [BgSetBadgeText [], UpdateRecordingStatus False]"
proof -
  have a: "isRecording startedWorld" "startTime startedWorld = Some 0"
    by (simp_all add: startedWorld_eq)
  have b: "isRecording pausedWorld" "isPaused pausedWorld"
    by (simp_all add: pausedWorld_eq)
  have c: "bgIsRecording bgStartedWorld"
    by (simp add: bgStartedWorld_eq)
  show ?thesis
    by (simp add: a b c startRecording_while_recording bgStartRecording_while_recording
        cleanup_def)
qed


section \<open>Defaults of the capture options\<close>

lemma captureOptions_explicit:
  "captureOptions opts =
     \<lparr>includeScreen = Some (includeScreen opts = Some True),
      includeAudio = Some (includeAudio opts = Some True),
      includeSystemAudio = Some (includeSystemAudio opts = Some True),
      videoQuality = Some (if videoQuality opts = None \<or> videoQuality opts = Some []
                           then ''medium'' else the (videoQuality opts)),
      audioQuality = Some (if audioQuality opts = None \<or> audioQuality opts = Some []
                           then ''medium'' else the (audioQuality opts))\<rparr>"
  by (auto simp: captureOptions_def orFalse_def orString_def split: option.splits)

lemma startSettle_trace: "trace (snd (startSettle rp w)) = trace w"
  by (simp add: startSettle_def startFailed_def cleanup_def Let_def
      split: reply.splits option.splits)

lemma startRecording_idle_trace:
  assumes "\<not> isRecording w" and "offscreenOk e"
  shows "trace (snd (startRecording e now opts w))
           = trace w @ [ToOffscreen (START_CAPTURE (captureOptions opts))]"
  using assms by (simp add: startRecording_def startSettle_trace startIssue_def emit_def)

lemma startRecording_idle_result:
  assumes "\<not> isRecording w" and "offscreenOk e"
  shows "(fst (startRecording e now opts w) = Success now)
           = (\<exists>err. captureReply e (START_CAPTURE (captureOptions opts)) = Response True err)"
  using assms
  by (auto simp: startRecording_def startSettle_def startIssue_def startFailed_def emit_def
      split: reply.splits)

lemma bgStartRecording_idle:
  assumes "\<not> bgIsRecording w" and "offscreenOk e"
  shows "bgStartRecording e msg now opts w =
           (Success ''Recording started'',
            w\<lparr>offscreenReady := True, bgIsRecording := True, bgStartTime := Some now,
              bgTrace := bgTrace w @
                [BgSetBadgeText ''REC'', BgSetBadgeBackgroundColor ''#ff0000'',
                 UpdateRecordingStatus True,
                 BgToOffscreen (START_CAPTURE (captureOptions opts))]\<rparr>)"
  using assms by (simp add: bgStartRecording_def bgStartMark_def bgStartSend_def bgEmit_def)

text \<open>
  Claim C9. From Idle, with the offscreen document established, \<^verbatim>\<open>startRecording\<close> sends
  exactly one \<^verbatim>\<open>START_CAPTURE\<close> whose options are the given ones with every missing key
  filled in: the three include flags default to false, the two qualities to
  \<^verbatim>\<open>'medium'\<close>. The manager adds no check of its own: the call succeeds exactly when the
  offscreen document answers with success, also for the empty options object.
\<close>

theorem C9_start_fills_defaults:
  assumes "\<not> isRecording w" and "offscreenOk e"
  shows "trace (snd (startRecording e now opts w)) = trace w @
      [ToOffscreen (START_CAPTURE
         \<lparr>includeScreen = Some (includeScreen opts = Some True),
          includeAudio = Some (includeAudio opts = Some True),
          includeSystemAudio = Some (includeSystemAudio opts = Some True),
          videoQuality = Some (if videoQuality opts = None \<or> videoQuality opts = Some []
                               then ''medium'' else the (videoQuality opts)),
          audioQuality = Some (if audioQuality opts = None \<or> audioQuality opts = Some []
                               then ''medium'' else the (audioQuality opts))\<rparr>)]
    \<and> (fst (startRecording e now opts w) = Success now)
        = (\<exists>err. captureReply e (START_CAPTURE
         \<lparr>includeScreen = Some (includeScreen opts = Some True),
          includeAudio = Some (includeAudio opts = Some True),
          includeSystemAudio = Some (includeSystemAudio opts = Some True),
          videoQuality = Some (if videoQuality opts = None \<or> videoQuality opts = Some []
                               then ''medium'' else the (videoQuality opts)),
          audioQuality = Some (if audioQuality opts = None \<or> audioQuality opts = Some []
                               then ''medium'' else the (audioQuality opts))\<rparr>)
              = Response True err)"
  using startRecording_idle_trace [OF assms, of now opts]
    startRecording_idle_result [OF assms, of now opts]
  by (simp only: captureOptions_explicit [symmetric] simp_thms)

theorem C9_start_fills_defaults_witness:
  "\<not> isRecording idleWorld \<and> offscreenOk onlineEnv \<and>
   trace (snd (startRecording onlineEnv 5000 emptyOptions idleWorld)) =
     [ToOffscreen (START_CAPTURE
        \<lparr>includeScreen = Some False, includeAudio = Some False,
         includeSystemAudio = Some False, videoQuality = Some ''medium'',
         audioQuality = Some ''medium''\<rparr>)] \<and>
   fst (startRecording onlineEnv 5000 emptyOptions idleWorld) = Success 5000"
proof -
  have h: "\<not> isRecording idleWorld" "offscreenOk onlineEnv"
    by (simp_all add: idleWorld_def onlineEnv_sel)
  show ?thesis
    using h C9_start_fills_defaults [OF h, of 5000 emptyOptions]
    by (simp add: emptyOptions_def idleWorld_def onlineEnv_sel)
qed

section \<open>Reconciliation with nothing pending\<close>

text \<open>
  Claim C10. When no record of the local collection has \<^verbatim>\<open>needsSync\<close> set,
  \<^verbatim>\<open>syncPendingRecordings\<close> answers \<^verbatim>\<open>{success: true, synced: 0}\<close> and the world is the one
  it started from: both collections are unchanged and the list of effects has gained
  neither an upload request nor a storage write.
\<close>

theorem C10_nothing_pending:
  assumes "\<forall>r \<in> set (localRecordings w). \<not> needsSync r"
  shows "syncPendingRecordings e w = (Success 0, w)"
  using assms by (simp add: syncPendingRecordings_def filter_empty_conv)

theorem C10_nothing_pending_witness:
  "filter needsSync (localRecordings syncedLocalWorld) = [] \<and>
   length (localRecordings syncedLocalWorld) = 1 \<and>
   syncPendingRecordings onlineEnv syncedLocalWorld = (Success 0, syncedLocalWorld)"
proof -
  have h: "\<forall>r \<in> set (localRecordings syncedLocalWorld). \<not> needsSync r"
    by (simp add: syncedLocalWorld_def markSynced_def)
  have l: "length (localRecordings syncedLocalWorld) = 1"
    by (simp add: syncedLocalWorld_def savedLocallyWorld_local)
  show ?thesis
    using h l C10_nothing_pending [OF h, of onlineEnv] by (simp add: filter_empty_conv)
qed

section \<open>Reconciliation of pending records\<close>

lemma syncLoop_step:
  "syncLoop e (r # rs) (n, upd, w) =
     (case uploadOutcome e r of
        None \<Rightarrow>
          syncLoop e rs (n, upd,
            (case fetchBlob e (blob r) of None \<Rightarrow> w
             | Some b \<Rightarrow> emit (UploadRequest b (r\<lparr>blob := None\<rparr>)) w))
      | Some s \<Rightarrow>
          syncLoop e rs (Suc n,
            (case findIndex (\<lambda>x. rid x = rid r) upd of
               None \<Rightarrow> upd | Some i \<Rightarrow> upd[i := markSynced s]),
            addRecording s (emit (UploadRequest (the (fetchBlob e (blob r))) (r\<lparr>blob := None\<rparr>)) w)))"
  by (simp add: uploadOutcome_def Let_def split: option.splits upload_result.splits)


lemma findIndex_append_hit:
  assumes "\<forall>d \<in> set done. \<not> p d" and "p x"
  shows "findIndex p (done @ x # rest) = Some (length done)"
  using assms by (induction "done") simp_all

lemma syncLoop_updated:
  assumes "distinct (map rid rest)"
    and "\<forall>d \<in> set done. rid d \<notin> rid ` set rest"
    and "\<forall>r \<in> set rest. \<forall>s. needsSync r \<longrightarrow> uploadOutcome e r = Some s
           \<longrightarrow> rid s \<notin> rid ` set rest"
  shows "fst (snd (syncLoop e (filter needsSync rest) (n, done @ rest, w)))
           = done @ map (reconciled e) rest"
  using assms
proof (induction rest arbitrary: "done" n w)
  case Nil
  then show ?case by simp
next
  case (Cons x rest)
  have dist: "distinct (map rid rest)" and xnot: "rid x \<notin> rid ` set rest"
    using Cons.prems(1) by auto
  have fresh: "\<forall>r \<in> set rest. \<forall>s. needsSync r \<longrightarrow> uploadOutcome e r = Some s
                 \<longrightarrow> rid s \<notin> rid ` set rest"
    using Cons.prems(3) by auto
  have done_x: "\<forall>d \<in> set done. rid d \<noteq> rid x"
    using Cons.prems(2) by auto
  have done_rest: "\<forall>d \<in> set done. rid d \<notin> rid ` set rest"
    using Cons.prems(2) by auto
  have keep: "\<forall>d \<in> set (done @ [x]). rid d \<notin> rid ` set rest"
    using done_rest xnot by auto
  show ?case
  proof (cases "needsSync x")
    case False
    have "fst (snd (syncLoop e (filter needsSync rest) (n, (done @ [x]) @ rest, w)))
            = (done @ [x]) @ map (reconciled e) rest"
      by (rule Cons.IH [OF dist keep fresh])
    with False show ?thesis by (simp add: reconciled_def)
  next
    case True
    show ?thesis
    proof (cases "uploadOutcome e x")
      case None
      have "fst (snd (syncLoop e (filter needsSync rest) (n, (done @ [x]) @ rest, w')))
              = (done @ [x]) @ map (reconciled e) rest" for w'
        by (rule Cons.IH [OF dist keep fresh])
      with True None show ?thesis
        by (simp add: reconciled_def syncLoop_step del: syncLoop.simps)
    next
      case (Some s)
      have sfresh: "rid s \<notin> rid ` set rest"
        using Cons.prems(3) Some True by auto
      have keep': "\<forall>d \<in> set (done @ [markSynced s]). rid d \<notin> rid ` set rest"
        using done_rest sfresh by (auto simp: markSynced_def)
      have idx: "findIndex (\<lambda>y. rid y = rid x) (done @ x # rest) = Some (length done)"
        by (rule findIndex_append_hit) (use done_x in auto)
      have "fst (snd (syncLoop e (filter needsSync rest)
                       (n', (done @ [markSynced s]) @ rest, w')))
              = (done @ [markSynced s]) @ map (reconciled e) rest" for n' w'
        by (rule Cons.IH [OF dist keep' fresh])
      with True Some idx show ?thesis
        by (simp add: reconciled_def syncLoop_step del: syncLoop.simps)
    qed
  qed
qed


lemma syncLoop_recordings:
  "recordings (snd (snd (syncLoop e ps (n, upd, w))))
     = foldl (\<lambda>acc s. take 100 (s # acc)) (recordings w) (List.map_filter (uploadOutcome e) ps)"
proof (induction ps arbitrary: n upd w)
  case Nil
  then show ?case by simp
next
  case (Cons r rs)
  show ?case
  proof (cases "uploadOutcome e r")
    case None
    then show ?thesis
      by (simp add: syncLoop_step Cons.IH emit_def del: syncLoop.simps split: option.splits)
  next
    case (Some s)
    then show ?thesis
      by (simp add: syncLoop_step Cons.IH addRecording_def emit_def del: syncLoop.simps)
  qed
qed

lemma take_append_take:
  "take n (xs @ take n zs) = take n (xs @ zs)"
  by (simp add: min_def)

lemma foldl_unshift_trim:
  "ss \<noteq> [] \<Longrightarrow> foldl (\<lambda>acc s. take n (s # acc)) acc ss = take n (rev ss @ acc)"
proof (induction ss arbitrary: acc)
  case Nil
  then show ?case by simp
next
  case (Cons s ss)
  show ?case
  proof (cases "ss = []")
    case True
    then show ?thesis by simp
  next
    case False
    have "foldl (\<lambda>acc s. take n (s # acc)) acc (s # ss)
            = take n (rev ss @ take n (s # acc))"
      using Cons.IH [OF False, of "take n (s # acc)"] by simp
    also have "\<dots> = take n (rev ss @ s # acc)"
      by (rule take_append_take)
    finally show ?thesis by simp
  qed
qed

lemma foldl_unshift_trim_keeps:
  assumes "s \<in> set ss" and "length ss \<le> n"
  shows "s \<in> set (foldl (\<lambda>acc s. take n (s # acc)) acc ss)"
proof -
  from assms(1) have ne: "ss \<noteq> []" by auto
  have "take n (rev ss @ acc) = rev ss @ take (n - length ss) acc"
    using assms(2) by simp
  with assms(1) show ?thesis by (simp only: foldl_unshift_trim [OF ne] set_append set_rev UnI1)
qed

lemma reconciled_idle: "\<not> needsSync r \<Longrightarrow> reconciled e r = r"
  by (simp add: reconciled_def)

lemma serverIdsFresh_D:
  assumes "serverIdsFresh e rs" and "r \<in> set rs" and "needsSync r"
    and "uploadOutcome e r = Some s"
  shows "rid s \<notin> rid ` set rs"
  using assms by (fastforce simp: serverIdsFresh_def split: option.splits)


lemma syncPending_local:
  assumes "distinct (map rid (localRecordings w))"
    and "serverIdsFresh e (localRecordings w)"
  shows "localRecordings (snd (syncPendingRecordings e w))
           = map (reconciled e) (localRecordings w)"
proof -
  let ?local = "localRecordings w"
  have fresh: "\<forall>r \<in> set ?local. \<forall>s. needsSync r \<longrightarrow> uploadOutcome e r = Some s
                 \<longrightarrow> rid s \<notin> rid ` set ?local"
    using serverIdsFresh_D [OF assms(2)] by blast
  have upd: "fst (snd (syncLoop e (filter needsSync ?local) (0, ?local, w)))
               = map (reconciled e) ?local"
    using syncLoop_updated [of ?local "[]" e 0 w] assms(1) fresh by simp
  show ?thesis
  proof (cases "filter needsSync ?local = []")
    case True
    then have "map (reconciled e) ?local = ?local"
      by (simp add: filter_empty_conv reconciled_idle map_idI)
    with True show ?thesis by (simp add: syncPendingRecordings_def)
  next
    case False
    then show ?thesis
      by (simp add: syncPendingRecordings_def Let_def case_prod_beta emit_def upd)
  qed
qed

lemma syncPending_recordings:
  "recordings (snd (syncPendingRecordings e w))
     = foldl (\<lambda>acc s. take 100 (s # acc)) (recordings w)
         (List.map_filter (uploadOutcome e) (filter needsSync (localRecordings w)))"
proof (cases "filter needsSync (localRecordings w) = []")
  case True
  then show ?thesis by (simp add: syncPendingRecordings_def)
next
  case False
  then show ?thesis
    by (simp add: syncPendingRecordings_def Let_def case_prod_beta emit_def syncLoop_recordings)
qed








section \<open>Where a synced record lives\<close>

lemma savedLocally_outcome:
  "uploadOutcome onlineEnv (hd (localRecordings savedLocallyWorld)) = Some serverRecord0"
  by (simp add: savedLocallyWorld_local uploadOutcome_def onlineEnv_def showNat_samples
      serverRecord0_def)

lemma savedLocally_hyps:
  "distinct (map rid (localRecordings savedLocallyWorld))"
  "serverIdsFresh onlineEnv (localRecordings savedLocallyWorld)"
  using savedLocally_outcome
  by (simp_all add: savedLocallyWorld_local serverIdsFresh_def serverRecord0_def)

lemma savedLocally_synced:
  "localRecordings (snd (syncPendingRecordings onlineEnv savedLocallyWorld)) = [serverRecord0]"
  "recordings (snd (syncPendingRecordings onlineEnv savedLocallyWorld)) = [serverRecord0]"
proof -
  have m: "markSynced serverRecord0 = serverRecord0"
    by (simp add: markSynced_def serverRecord0_def)
  show "localRecordings (snd (syncPendingRecordings onlineEnv savedLocallyWorld))
          = [serverRecord0]"
    using savedLocally_outcome
    by (simp add: syncPending_local [OF savedLocally_hyps] savedLocallyWorld_local
        reconciled_def m)
  show "recordings (snd (syncPendingRecordings onlineEnv savedLocallyWorld)) = [serverRecord0]"
    using savedLocally_outcome
    by (simp add: syncPending_recordings savedLocallyWorld_local)
qed

lemma rid_reconciled:
  assumes "distinct (map rid rs)" and "serverIdsFresh e rs"
    and "r \<in> set rs" and "needsSync r" and "uploadOutcome e r = Some s"
    and "q \<in> set rs"
  shows "rid (reconciled e q) \<noteq> rid r"
proof (cases "needsSync q \<and> uploadOutcome e q \<noteq> None")
  case True
  then obtain s' where s': "needsSync q" "uploadOutcome e q = Some s'" by auto
  have "rid s' \<notin> rid ` set rs"
    by (rule serverIdsFresh_D [OF assms(2) assms(6) s'])
  moreover have "rid (reconciled e q) = rid s'"
    using s' by (simp add: reconciled_def markSynced_def)
  ultimately show ?thesis using assms(3) by auto
next
  case False
  then have same: "reconciled e q = q"
    by (auto simp: reconciled_def)
  from False assms(4,5) have "q \<noteq> r" by auto
  with assms(1,3,6) have "rid q \<noteq> rid r"
    by (meson distinct_map inj_onD)
  with same show ?thesis by simp
qed

text \<open>
  Claim C4, as stated: the two collections are disjoint by id, a successful sync taking
  the id out of the local collection. The record saved locally by the sample session is
  uploaded by the next reconciliation; before it the collections are disjoint, after it
  the id \<^verbatim>\<open>srv-0\<close> is in both.
\<close>

theorem C4_not_disjoint_counterexample:
  "disjointById savedLocallyWorld \<and>
   \<not> disjointById (snd (syncPendingRecordings onlineEnv savedLocallyWorld))"
  by (simp add: disjointById_def savedLocally_synced savedLocallyWorld_local)

text \<open>
  Claim C4, amended. For local ids that are distinct, server ids that differ from them
  and at most 100 local records: a record whose upload goes through has its entry of
  the local collection overwritten in place by the server's record, marked
  \<^verbatim>\<open>needsSync: false, isLocal: false\<close> and without payload, so its local id is gone from
  the local collection; the server's record is also put into the synced collection.
  The server-assigned id is therefore in both collections.
\<close>

theorem C4_synced_record_in_both:
  assumes "distinct (map rid (localRecordings w))"
    and "serverIdsFresh e (localRecordings w)"
    and "length (localRecordings w) \<le> 100"
    and "r \<in> set (localRecordings w)" and "needsSync r" and "uploadOutcome e r = Some s"
  shows "rid r \<notin> rid ` set (localRecordings (snd (syncPendingRecordings e w)))
       \<and> markSynced s \<in> set (localRecordings (snd (syncPendingRecordings e w)))
       \<and> s \<in> set (recordings (snd (syncPendingRecordings e w)))
       \<and> rid s \<in> rid ` set (recordings (snd (syncPendingRecordings e w)))
                  \<inter> rid ` set (localRecordings (snd (syncPendingRecordings e w)))"
proof -
  let ?w' = "snd (syncPendingRecordings e w)"
  let ?servers = "List.map_filter (uploadOutcome e) (filter needsSync (localRecordings w))"
  have loc: "localRecordings ?w' = map (reconciled e) (localRecordings w)"
    by (rule syncPending_local [OF assms(1,2)])
  have "rid (reconciled e q) \<noteq> rid r" if "q \<in> set (localRecordings w)" for q
    by (rule rid_reconciled [OF assms(1,2,4,5,6) that])
  then have gone: "rid r \<notin> rid ` set (localRecordings ?w')"
    unfolding loc by (metis (no_types, lifting) image_iff list.set_map)
  have "reconciled e r = markSynced s"
    using assms(5,6) by (simp add: reconciled_def)
  with assms(4) have marked: "markSynced s \<in> set (localRecordings ?w')"
    by (force simp: loc)
  have "s \<in> set ?servers"
    using assms(4,5,6) by (force simp: List.map_filter_def)
  moreover have "length ?servers \<le> 100"
  proof -
    have "length ?servers
            = length (filter (\<lambda>x. uploadOutcome e x \<noteq> None)
                        (filter needsSync (localRecordings w)))"
      by (simp only: List.map_filter_def length_map)
    also have "\<dots> \<le> length (filter needsSync (localRecordings w))"
      by (rule length_filter_le)
    also have "\<dots> \<le> length (localRecordings w)"
      by (rule length_filter_le)
    finally show ?thesis using assms(3) by simp
  qed
  ultimately have synced: "s \<in> set (recordings ?w')"
    by (simp only: syncPending_recordings foldl_unshift_trim_keeps)
  have "rid (markSynced s) = rid s" by (simp add: markSynced_def)
  with marked have "rid s \<in> rid ` set (localRecordings ?w')"
    by (metis imageI)
  with gone marked synced show ?thesis by blast
qed

theorem C4_synced_record_in_both_witness:
  "rid (hd (localRecordings savedLocallyWorld)) = ''local-30005'' \<and>
   ''local-30005'' \<notin> rid ` set (localRecordings
                                    (snd (syncPendingRecordings onlineEnv savedLocallyWorld))) \<and>
   ''srv-0'' \<in> rid ` set (recordings (snd (syncPendingRecordings onlineEnv savedLocallyWorld)))
              \<inter> rid ` set (localRecordings
                              (snd (syncPendingRecordings onlineEnv savedLocallyWorld)))"
proof -
  have h: "length (localRecordings savedLocallyWorld) \<le> 100"
    "hd (localRecordings savedLocallyWorld) \<in> set (localRecordings savedLocallyWorld)"
    "needsSync (hd (localRecordings savedLocallyWorld))"
    by (simp_all add: savedLocallyWorld_local)
  have i: "rid (hd (localRecordings savedLocallyWorld)) = ''local-30005''"
    "rid serverRecord0 = ''srv-0''"
    by (simp_all add: savedLocallyWorld_local serverRecord0_def)
  show ?thesis
    using C4_synced_record_in_both [OF savedLocally_hyps h savedLocally_outcome]
    by (simp only: i simp_thms)
qed


section \<open>Payload and sync flag\<close>















section \<open>A completed recording whose upload fails\<close>

lemma recordingMetadata_Some_iff:
  "(\<exists>m. recordingMetadata e now mime sz w = Some m)
     = (extractMeetingTitle (activeTab e) \<noteq> None \<and> startTime w \<noteq> None)"
  by (auto simp: recordingMetadata_def split: option.splits)

lemma extractMeetingTitle_no_url:
  "extractMeetingTitle (Some \<lparr>tabTitle = ti, tabUrl = None\<rparr>) = None"
  by (simp add: extractMeetingTitle_def)

lemma bgHandleRecordingComplete_failed:
  assumes "bgStartTime w = Some st" and "fetchBlob e (Some blobUrl) = Some b"
    and "bgUploadRecording e b
           \<lparr>rid = [], title = tabTitleOrUntitled (activeTab e),
            url = tabUrlOrEmpty (activeTab e),
            duration = (now - st + 500) div 1000, recStartTime = st, endTime = now,
            fileSize = sz, mimeType = mime, isLocal = False, needsSync = False,
            blob = None\<rparr> = BgUploadFailed err"
  shows "bgLocalRecordings (bgHandleRecordingComplete e now idNow blobUrl mime sz w)
           = take 10 (\<lparr>rid = ''local-'' @ showNat idNow,
                       title = tabTitleOrUntitled (activeTab e),
                       url = tabUrlOrEmpty (activeTab e),
                       duration = (now - st + 500) div 1000, recStartTime = st,
                       endTime = now, fileSize = sz, mimeType = mime, isLocal = True,
                       needsSync = True, blob = Some (DataUrl b)\<rparr> # bgLocalRecordings w)"
    and "bgRecordings (bgHandleRecordingComplete e now idNow blobUrl mime sz w) = bgRecordings w"
  using assms
  by (simp_all add: bgHandleRecordingComplete_def bgStoreRecordingLocally_def bgEmit_def Let_def)



section \<open>A start request without a capture source\<close>

text \<open>
  Claim C6, as stated: the coordinator rejects a start with neither screen nor audio
  before any side effect. The service worker and its RecordingManager have no such
  check: from Idle the request is accepted, \<^verbatim>\<open>START_CAPTURE\<close> goes out with both flags
  false and the session is marked as recording.
\<close>

theorem C6_coordinator_accepts_no_source_counterexample:
  "includeScreen noSources = Some False \<and> includeAudio noSources = Some False \<and>
   fst (bsStartRecording onlineEnv 5000 noSources idleWorld) = Success 5000 \<and>
   isRecording (snd (bsStartRecording onlineEnv 5000 noSources idleWorld)) \<and>
   trace (snd (bsStartRecording onlineEnv 5000 noSources idleWorld))
     = [ToOffscreen (START_CAPTURE
          \<lparr>includeScreen = Some False, includeAudio = Some False,
           includeSystemAudio = Some False, videoQuality = Some ''medium'',
           audioQuality = Some ''medium''\<rparr>),
        SetBadgeText ''REC'', SetBadgeBackgroundColor ''#EF4444'',
        NotifyAllTabs ''RECORDING_STARTED'', Notification ''Recording Started'']"
  by (simp add: bsStartRecording_def noSources_def idleWorld_def manager_defs onlineEnv_sel
      captureOptions_def orFalse_def orString_def)

text \<open>
  Claim C6, amended. The check is made by the popup: with neither box ticked it shows
  \<^verbatim>\<open>Please select at least one recording option\<close> and returns before any message is
  sent to the service worker. The session fields are unchanged and nothing is sent to
  the offscreen document.
\<close>

theorem C6_popup_rejects_no_source:
  "popupStartRecording e now False False sys (ps, w)
     = (ps, w\<lparr>trace := trace w @
               [ShowMessage ''Starting recording...'' ''info'',
                ShowMessage ''Please select at least one recording option'' ''error'']\<rparr>)"
  by (simp add: popupStartRecording_def emit_def)


section \<open>When the status fields change\<close>

lemma startStep_sequential:
  "(case startStep e t0 (Called opts) w of (c1, w1) \<Rightarrow>
      case startStep e now c1 w1 of (c2, w2) \<Rightarrow> startStep e t2 c2 w2)
   = (Returned (fst (startRecording e now opts w)), snd (startRecording e now opts w))"
  by (simp add: startRecording_def startFailed_def case_prod_beta)




section \<open>Reconciliation in background.js\<close>

lemma bgSyncLoop_step:
  "bgSyncLoop e (r # rs) (n, w) =
     (if needsSync r then
        (case bgUploadOutcome e r of
           None \<Rightarrow>
             (case bgSyncLoop e rs
                     (n, case fetchBlob e (blob r) of
                           None \<Rightarrow> w
                         | Some b \<Rightarrow> bgEmit (BgUploadRequest b (bgMetadataOf r)) w) of
                (rs', n', w') \<Rightarrow> (r # rs', n', w'))
         | Some body \<Rightarrow>
             (case bgSyncLoop e rs
                     (Suc n, bgEmit (BgUploadRequest (the (fetchBlob e (blob r)))
                                       (bgMetadataOf r)) w) of
                (rs', n', w') \<Rightarrow> (bgReconciled e r # rs', n', w')))
      else (case bgSyncLoop e rs (n, w) of (rs', n', w') \<Rightarrow> (r # rs', n', w')))"
  by (simp add: bgUploadOutcome_def bgReconciled_def Let_def
      split: option.splits bgUpload_result.splits)

lemma bgSyncLoop_local:
  "fst (bgSyncLoop e rs (n, w)) = map (bgReconciled e) rs"
proof (induction rs arbitrary: n w)
  case Nil
  then show ?case by simp
next
  case (Cons r rs)
  have keep: "\<not> needsSync r \<or> bgUploadOutcome e r = None \<Longrightarrow> bgReconciled e r = r"
    by (auto simp: bgReconciled_def)
  show ?case
    by (cases "needsSync r"; cases "bgUploadOutcome e r")
       (simp_all add: bgSyncLoop_step Cons.IH case_prod_beta keep del: bgSyncLoop.simps)
qed

lemma bgSyncLoop_count:
  "fst (snd (bgSyncLoop e rs (n, w)))
     = n + length (filter (\<lambda>r. needsSync r \<and> bgUploadOutcome e r \<noteq> None) rs)"
proof (induction rs arbitrary: n w)
  case Nil
  then show ?case by simp
next
  case (Cons r rs)
  show ?case
    by (cases "needsSync r"; cases "bgUploadOutcome e r")
       (simp_all add: bgSyncLoop_step Cons.IH case_prod_beta del: bgSyncLoop.simps)
qed

lemma bgSyncLoop_recordings:
  "bgRecordings (snd (snd (bgSyncLoop e rs (n, w)))) = bgRecordings w"
proof (induction rs arbitrary: n w)
  case Nil
  then show ?case by simp
next
  case (Cons r rs)
  show ?case
    by (cases "needsSync r"; cases "bgUploadOutcome e r")
       (simp_all add: bgSyncLoop_step Cons.IH case_prod_beta bgEmit_def
          del: bgSyncLoop.simps split: option.splits)
qed

lemma bgSyncPending_nothing_pending:
  assumes "\<forall>r \<in> set (bgLocalRecordings w). \<not> needsSync r"
  shows "bgSyncPendingRecordings e w = (Success 0, w)"
  using assms by (simp add: bgSyncPendingRecordings_def filter_empty_conv)

lemma bgSyncPending_recordings:
  "bgRecordings (snd (bgSyncPendingRecordings e w)) = bgRecordings w"
  by (simp add: bgSyncPendingRecordings_def Let_def case_prod_beta bgEmit_def
      bgSyncLoop_recordings)

lemma bgSyncPending_result:
  "fst (bgSyncPendingRecordings e w)
     = Success (length (filter (\<lambda>r. needsSync r \<and> bgUploadOutcome e r \<noteq> None)
                          (bgLocalRecordings w)))"
proof (cases "filter needsSync (bgLocalRecordings w) = []")
  case True
  then have "filter (\<lambda>r. needsSync r \<and> bgUploadOutcome e r \<noteq> None) (bgLocalRecordings w) = []"
    by (simp add: filter_empty_conv)
  with True show ?thesis by (simp add: bgSyncPendingRecordings_def)
next
  case False
  then show ?thesis
    by (simp add: bgSyncPendingRecordings_def Let_def case_prod_beta bgSyncLoop_count)
qed

lemma bgSyncPending_local:
  "bgLocalRecordings (snd (bgSyncPendingRecordings e w))
     = map (bgReconciled e) (bgLocalRecordings w)"
proof (cases "filter needsSync (bgLocalRecordings w) = []")
  case True
  then have "map (bgReconciled e) (bgLocalRecordings w) = bgLocalRecordings w"
    by (simp add: filter_empty_conv bgReconciled_def map_idI)
  with True show ?thesis by (simp add: bgSyncPendingRecordings_def)
next
  case False
  then show ?thesis
    by (simp add: bgSyncPendingRecordings_def Let_def case_prod_beta bgEmit_def
        bgSyncLoop_local)
qed

lemma objectAssign_plain:
  assumes "\<forall>k \<in> set body. plainKey k"
  shows "blob (objectAssign r body) = blob r \<and> needsSync (objectAssign r body) = needsSync r"
  using assms unfolding objectAssign_def
proof (induction body arbitrary: r)
  case Nil
  then show ?case by simp
next
  case (Cons k body)
  from Cons.prems have "plainKey k" by simp
  then have "blob (assignKey r k) = blob r \<and> needsSync (assignKey r k) = needsSync r"
    by (cases k) simp_all
  with Cons show ?case by simp
qed

lemma bgReconciled_cleared:
  assumes "needsSync r" and "bgUploadOutcome e r = Some body" and "\<forall>k \<in> set body. plainKey k"
  shows "\<not> needsSync (bgReconciled e r) \<and> blob (bgReconciled e r) = None"
  using assms objectAssign_plain [OF assms(3), of "r\<lparr>needsSync := False, isLocal := False, blob := None\<rparr>"]
  by (simp add: bgReconciled_def)

lemma bgReconciled_body_payload:
  assumes "needsSync r" and "bgUploadOutcome e r = Some [KData (Some p)]"
  shows "stale (bgReconciled e r)"
  using assms by (simp add: bgReconciled_def objectAssign_def stale_def)

section \<open>The start of background.js piece by piece\<close>

lemma bgStartStep_sequential:
  "(case bgStartStep e msg t0 (BgCalled opts) w of (c1, w1) \<Rightarrow>
      case bgStartStep e msg now c1 w1 of (c2, w2) \<Rightarrow> bgStartStep e msg t2 c2 w2)
   = (BgReturned (fst (bgStartRecording e msg now opts w)),
      snd (bgStartRecording e msg now opts w))"
  by (simp add: bgStartRecording_def bgStartFailed_def case_prod_beta)

lemma bgStart_two_guards_pass:
  assumes "\<not> bgIsRecording w"
  shows "bgStartStep e msg t1 (BgCalled o1) w = (BgAwaitingOffscreen o1, w)"
    and "bgStartStep e msg t2 (BgCalled o2) (snd (bgStartStep e msg t1 (BgCalled o1) w))
           = (BgAwaitingOffscreen o2, w)"
  using assms by simp_all

end
